theory Spec2Isabelle
  imports Complex_Main "HOL-Library.Multiset"
begin

section \<open>Split conformal calibration as the tutorial notebooks compute it\<close>

text \<open>
  The regression notebook (part 1) computes the error margin of split conformal
  prediction by hand, and the classification notebook (part 2) recomputes the calibrated
  threshold the same way:
  \<^verbatim>\<open>
  nonconf_scores.sort()
  n = len(nonconf_scores)
  q = np.quantile(nonconf_scores, (1 - alpha) * (n + 1) / n, method="inverted_cdf")
  \<close>
  The line is embedded twice. The first embedding reads Python floats as real numbers
  and every operation as exact; it carries the properties that do not depend on
  rounding, and the worked examples, whose values the double computation reproduces.
  The second embedding takes the rounding of binary64 arithmetic as a parameter \<open>fl\<close>,
  applied to the result of every operation that can round; it carries the statements
  about the level and about failure, which do depend on rounding. The first is the
  second at \<open>fl = (\<lambda>x. x)\<close>. Infinities and NaN are not values of either embedding.
\<close>

subsection \<open>Errors\<close>

text \<open>
  \<open>ZeroDivisionError\<close>, \<open>ValueError\<close> and \<open>IndexError\<close> are the Python exceptions the
  notebook line and NumPy can raise. \<open>InvalidInput\<close> is the error the specification
  names; the model raises it only in the score computation that the notebook leaves
  blank.
\<close>

datatype error = InvalidInput | ZeroDivisionError | ValueError | IndexError

subsection \<open>NumPy's quantile with \<open>method="inverted_cdf"\<close>\<close>

text \<open>
  NumPy computes the position of the quantile in the sorted array as
  \<^verbatim>\<open>
  index = n * quantiles - 1
  previous = np.floor(index); next = previous + 1; gamma = index - previous
  res = np.where(gamma == 0, previous, next).astype(np.intp)
  res[res < 0] = 0
  \<close>
  Here every operation is exact; \<open>inverted_cdf_fl\<close> below rounds the product.
\<close>

definition inverted_cdf :: "nat \<Rightarrow> real \<Rightarrow> int" where
  "inverted_cdf n quantiles =
     (let index = real n * quantiles - 1;
          previous = \<lfloor>index\<rfloor>;
          nxt = previous + 1;
          gamma = index - of_int previous;
          res = (if gamma = 0 then previous else nxt)
      in if res < 0 then 0 else res)"

text \<open>
  \<open>np.quantile\<close> first rejects a level outside \<open>[0, 1]\<close> with
  \<open>ValueError("Quantiles must be in the range [0, 1]")\<close>, then takes the element of the
  sorted array at the position above. An empty array has no element to take and NumPy
  raises \<open>IndexError\<close>; the notebook line never passes one, since its division by \<open>n\<close>
  raises first. On a non-empty array and a level in \<open>[0, 1]\<close> the exact position is
  below \<open>n\<close> (\<open>inverted_cdf_in_range\<close> below).
\<close>

definition np_quantile :: "real list \<Rightarrow> real \<Rightarrow> error + real" where
  "np_quantile a q =
     (if \<not> (0 \<le> q \<and> q \<le> 1) then Inl ValueError
      else if a = [] then Inl IndexError
      else Inr (sort a ! nat (inverted_cdf (length a) q)))"

subsection \<open>The notebook line\<close>

text \<open>
  The level \<open>(1 - alpha) * (n + 1) / n\<close>, with \<open>n = len(nonconf_scores)\<close> a Python int:
  the division raises \<open>ZeroDivisionError\<close> when \<open>n\<close> is 0. Here every operation is
  exact; \<open>q_level_fl\<close> below rounds each of them.
\<close>

definition q_level :: "real \<Rightarrow> nat \<Rightarrow> error + real" where
  "q_level alpha n =
     (if n = 0 then Inl ZeroDivisionError
      else Inr ((1 - alpha) * (real n + 1) / real n))"

text \<open>
  \<open>q\<close> in part 1 and \<open>calibrated_treshold\<close> in part 2: the same expression. The argument
  of \<open>np.quantile\<close> is evaluated (and may raise) before the call.
\<close>

definition calibrated_treshold :: "real list \<Rightarrow> real \<Rightarrow> error + real" where
  "calibrated_treshold nonconf_scores alpha =
     (let n = length nonconf_scores
      in case q_level alpha n of
           Inl e \<Rightarrow> Inl e
         | Inr lv \<Rightarrow> np_quantile nonconf_scores lv)"

subsection \<open>The parts the notebook leaves as exercises\<close>

text \<open>
  Modelled from the spec: the nonconformity scores. The notebook has
  \<open>nonconf_scores_manual = ...  # TODO\<close> and otherwise takes the scores from the external
  library; its text and the specification both give \<open>R_i = |f(X_i) - Y_i|\<close>, and the
  specification makes sequences of different lengths an \<open>InvalidInput\<close> error.
\<close>

definition nonconf_scores_manual :: "real list \<Rightarrow> real list \<Rightarrow> error + real list" where
  "nonconf_scores_manual predictions targets =
     (if length predictions \<noteq> length targets then Inl InvalidInput
      else Inr (map2 (\<lambda>p y. \<bar>p - y\<bar>) predictions targets))"

text \<open>
  The specification's \<open>calibrate\<close>: the scores, sorted in place as the notebook does
  (\<open>nonconf_scores.sort()\<close>), then the notebook line.
\<close>

definition calibrate :: "real list \<Rightarrow> real list \<Rightarrow> real \<Rightarrow> error + real" where
  "calibrate predictions targets alpha =
     (case nonconf_scores_manual predictions targets of
        Inl e \<Rightarrow> Inl e
      | Inr r \<Rightarrow> calibrated_treshold (sort r) alpha)"

text \<open>
  Modelled from the spec: the interval around a point prediction. The notebook has
  \<open>y_pred_lower_manual = ...  # TODO\<close> and \<open>y_pred_upper_manual = ...  # TODO\<close>; its text
  and the specification both give \<open>[f(X_new) - delta, f(X_new) + delta]\<close>, element-wise
  on a batch.
\<close>

definition build_interval :: "real \<Rightarrow> real \<Rightarrow> real \<times> real" where
  "build_interval point_prediction margin =
     (point_prediction - margin, point_prediction + margin)"

definition y_pred_lower_manual :: "real list \<Rightarrow> real \<Rightarrow> real list" where
  "y_pred_lower_manual y_pred margin = map (\<lambda>p. p - margin) y_pred"

definition y_pred_upper_manual :: "real list \<Rightarrow> real \<Rightarrow> real list" where
  "y_pred_upper_manual y_pred margin = map (\<lambda>p. p + margin) y_pred"

definition build_interval_batch :: "real list \<Rightarrow> real \<Rightarrow> real list \<times> real list" where
  "build_interval_batch y_pred margin =
     (y_pred_lower_manual y_pred margin, y_pred_upper_manual y_pred margin)"

subsection \<open>The quantile as the specification words it\<close>

text \<open>
  The fraction of scores that are at most \<open>v\<close>, and the smallest score whose fraction
  reaches the level.
\<close>

definition ecdf :: "real list \<Rightarrow> real \<Rightarrow> real" where
  "ecdf r v = real (length (filter (\<lambda>x. x \<le> v) r)) / real (length r)"

definition inverted_ecdf_quantile_spec :: "real list \<Rightarrow> real \<Rightarrow> real" where
  "inverted_ecdf_quantile_spec r lv = Min (set (filter (\<lambda>v. lv \<le> ecdf r v) r))"

subsection \<open>The same line with rounding\<close>

text \<open>
  In Python \<open>alpha\<close> is a double and \<open>n\<close> an int, so \<open>(1 - alpha) * (n + 1) / n\<close> is three
  binary64 operations, each rounded: the difference, the product and the quotient.
  \<open>fl\<close> stands for that rounding and is a parameter, since it belongs to the Python
  runtime and not to the notebooks. The ints \<open>n\<close> and \<open>n + 1\<close> convert to doubles without
  rounding, an array having fewer than \<open>2^53\<close> entries.
\<close>

definition q_level_fl :: "(real \<Rightarrow> real) \<Rightarrow> real \<Rightarrow> nat \<Rightarrow> error + real" where
  "q_level_fl fl alpha n =
     (if n = 0 then Inl ZeroDivisionError
      else Inr (fl (fl (fl (1 - alpha) * (real n + 1)) / real n)))"

text \<open>
  NumPy's position, with the product \<open>n * quantiles\<close> rounded. The operations after it
  do not round on the values that reach them: for a product \<open>p \<ge> 1\<close> the difference
  \<open>p - 1\<close> is a double, for \<open>0 \<le> p < 1\<close> the rounded and the exact difference both lie in
  \<open>[-1, 0)\<close> and both give position 0, and the fractional part \<open>gamma\<close> of a double and
  the successor of an integer below \<open>2^53\<close> are doubles.
\<close>

definition inverted_cdf_fl :: "(real \<Rightarrow> real) \<Rightarrow> nat \<Rightarrow> real \<Rightarrow> int" where
  "inverted_cdf_fl fl n quantiles =
     (let index = fl (real n * quantiles) - 1;
          previous = \<lfloor>index\<rfloor>;
          nxt = previous + 1;
          gamma = index - of_int previous;
          res = (if gamma = 0 then previous else nxt)
      in if res < 0 then 0 else res)"

text \<open>
  \<open>np.quantile\<close> with the rounded position. Taking an element at a position outside the
  array raises \<open>IndexError\<close>; this is also what happens on an empty array.
\<close>

definition np_quantile_fl :: "(real \<Rightarrow> real) \<Rightarrow> real list \<Rightarrow> real \<Rightarrow> error + real" where
  "np_quantile_fl fl a q =
     (if \<not> (0 \<le> q \<and> q \<le> 1) then Inl ValueError
      else let k = nat (inverted_cdf_fl fl (length a) q)
           in if length a \<le> k then Inl IndexError else Inr (sort a ! k))"

definition calibrated_treshold_fl :: "(real \<Rightarrow> real) \<Rightarrow> real list \<Rightarrow> real \<Rightarrow> error + real" where
  "calibrated_treshold_fl fl nonconf_scores alpha =
     (let n = length nonconf_scores
      in case q_level_fl fl alpha n of
           Inl e \<Rightarrow> Inl e
         | Inr lv \<Rightarrow> np_quantile_fl fl nonconf_scores lv)"

text \<open>
  Modelled from the spec: the nonconformity scores (a blank in the notebook, as above),
  here with the difference rounded; the absolute value of a double is a double.
\<close>

definition nonconf_scores_manual_fl ::
  "(real \<Rightarrow> real) \<Rightarrow> real list \<Rightarrow> real list \<Rightarrow> error + real list" where
  "nonconf_scores_manual_fl fl predictions targets =
     (if length predictions \<noteq> length targets then Inl InvalidInput
      else Inr (map2 (\<lambda>p y. \<bar>fl (p - y)\<bar>) predictions targets))"

definition calibrate_fl :: "(real \<Rightarrow> real) \<Rightarrow> real list \<Rightarrow> real list \<Rightarrow> real \<Rightarrow> error + real" where
  "calibrate_fl fl predictions targets alpha =
     (case nonconf_scores_manual_fl fl predictions targets of
        Inl e \<Rightarrow> Inl e
      | Inr r \<Rightarrow> calibrated_treshold_fl fl (sort r) alpha)"

section \<open>Auxiliary facts\<close>

lemma inverted_cdf_ceiling: "inverted_cdf n lv = max 0 (\<lceil>real n * lv\<rceil> - 1)"
  unfolding inverted_cdf_def Let_def
  by (auto simp: ceiling_altdef max_def)


lemma inverted_cdf_in_range:
  assumes "0 < n" "lv \<le> 1"
  shows "nat (inverted_cdf n lv) < n"
proof -
  have "real n * lv \<le> real n"
    using assms by (simp add: mult_left_le)
  then have "\<lceil>real n * lv\<rceil> \<le> int n"
    by (simp add: ceiling_le_iff)
  then show ?thesis
    using assms unfolding inverted_cdf_ceiling by linarith
qed

lemma sort_eq_Nil: "sort a = [] \<longleftrightarrow> a = []"
  by (metis length_sort length_0_conv)

lemma np_quantile_sort: "np_quantile (sort a) lv = np_quantile a lv"
  by (simp add: np_quantile_def sort_key_id_if_sorted sort_eq_Nil)

lemma calibrated_treshold_sort: "calibrated_treshold (sort r) alpha = calibrated_treshold r alpha"
  by (simp add: calibrated_treshold_def np_quantile_sort split: sum.splits)

lemma np_quantile_in_set:
  assumes "np_quantile a lv = Inr m"
  shows "m \<in> set a"
proof -
  from assms have ok: "0 \<le> lv" "lv \<le> 1" "a \<noteq> []"
    and m: "m = sort a ! nat (inverted_cdf (length a) lv)"
    by (auto simp: np_quantile_def split: if_splits)
  have "nat (inverted_cdf (length a) lv) < length (sort a)"
    using ok inverted_cdf_in_range [of "length a" lv] by simp
  then have "m \<in> set (sort a)"
    unfolding m by (rule nth_mem)
  then show ?thesis by simp
qed


lemma calibrate_unfold:
  assumes "length predictions = length targets" "predictions \<noteq> []"
  shows "calibrate predictions targets alpha =
         np_quantile (map2 (\<lambda>p y. \<bar>p - y\<bar>) predictions targets)
           ((1 - alpha) * (real (length predictions) + 1) / real (length predictions))"
proof -
  have "targets \<noteq> []"
    using assms by auto
  with assms show ?thesis
    by (simp add: calibrate_def nonconf_scores_manual_def calibrated_treshold_def q_level_def
        Let_def np_quantile_sort)
qed

lemma scores_nonneg: "m \<in> set (map2 (\<lambda>p y. \<bar>p - y\<bar>) predictions targets) \<Longrightarrow> (0::real) \<le> m"
  by (auto simp: in_set_zip)

lemma length_filter_mset: "length (filter P xs) = size (filter_mset P (mset xs))"
  by (metis mset_filter size_mset)

lemma ecdf_sort: "ecdf (sort r) v = ecdf r v"
  by (simp add: ecdf_def length_filter_mset)

lemma sorted_count_le_ge:
  assumes "sorted s" "k < length s"
  shows "Suc k \<le> length (filter (\<lambda>x. x \<le> s ! k) s)"
proof -
  have "\<forall>x \<in> set (take (Suc k) s). x \<le> s ! k"
  proof
    fix x assume "x \<in> set (take (Suc k) s)"
    then obtain i where "i < Suc k" "i < length s" "x = s ! i"
      by (auto simp: in_set_conv_nth)
    then show "x \<le> s ! k"
      using assms by (auto intro: sorted_nth_mono)
  qed
  then have "filter (\<lambda>x. x \<le> s ! k) (take (Suc k) s) = take (Suc k) s"
    by (simp add: filter_True)
  moreover have "filter (\<lambda>x. x \<le> s ! k) s =
      filter (\<lambda>x. x \<le> s ! k) (take (Suc k) s) @ filter (\<lambda>x. x \<le> s ! k) (drop (Suc k) s)"
    by (metis append_take_drop_id filter_append)
  ultimately have "length (filter (\<lambda>x. x \<le> s ! k) s) \<ge> length (take (Suc k) s)"
    by simp
  then show ?thesis
    using assms(2) by simp
qed

lemma sorted_count_less:
  assumes "sorted s" "k < length s" "v < s ! k"
  shows "length (filter (\<lambda>x. x \<le> v) s) \<le> k"
proof -
  have "\<forall>x \<in> set (drop k s). \<not> x \<le> v"
  proof
    fix x assume "x \<in> set (drop k s)"
    then obtain i where "i < length s - k" "x = s ! (k + i)"
      by (auto simp: in_set_conv_nth)
    then have "s ! k \<le> x"
      using assms by (auto intro: sorted_nth_mono)
    with assms(3) show "\<not> x \<le> v" by simp
  qed
  then have "filter (\<lambda>x. x \<le> v) (drop k s) = []"
    by (simp add: filter_empty_conv)
  moreover have "filter (\<lambda>x. x \<le> v) s =
      filter (\<lambda>x. x \<le> v) (take k s) @ filter (\<lambda>x. x \<le> v) (drop k s)"
    by (metis append_take_drop_id filter_append)
  ultimately have "length (filter (\<lambda>x. x \<le> v) s) = length (filter (\<lambda>x. x \<le> v) (take k s))"
    by simp
  also have "\<dots> \<le> length (take k s)"
    by (rule length_filter_le)
  also have "\<dots> \<le> k"
    by simp
  finally show ?thesis .
qed

lemma sort_mset_eq: "mset xs = mset ys \<Longrightarrow> sort xs = sort (ys :: real list)"
  by (metis sorted_list_of_multiset_mset)

section \<open>The margin as a quantile\<close>

lemmas calibrate_eval = calibrate_def nonconf_scores_manual_def calibrated_treshold_def
  q_level_def np_quantile_def inverted_cdf_def

lemma calibrate_Inr_D:
  assumes "calibrate predictions targets alpha = Inr m"
  shows "length predictions = length targets" and "predictions \<noteq> []"
    and "np_quantile (map2 (\<lambda>p y. \<bar>p - y\<bar>) predictions targets)
           ((1 - alpha) * (real (length predictions) + 1) / real (length predictions)) = Inr m"
proof -
  show len: "length predictions = length targets"
    using assms by (auto simp: calibrate_def nonconf_scores_manual_def split: if_splits)
  show ne: "predictions \<noteq> []"
  proof
    assume "predictions = []"
    with len assms show False
      by (simp add: calibrate_def nonconf_scores_manual_def calibrated_treshold_def q_level_def)
  qed
  show "np_quantile (map2 (\<lambda>p y. \<bar>p - y\<bar>) predictions targets)
           ((1 - alpha) * (real (length predictions) + 1) / real (length predictions)) = Inr m"
    using assms calibrate_unfold [OF len ne] by simp
qed

subsection \<open>The embedding with rounding\<close>

text \<open>
  The exact embedding is the embedding with rounding at the identity.
\<close>

lemma q_level_fl_exact: "q_level_fl (\<lambda>x. x) alpha n = q_level alpha n"
  by (simp add: q_level_fl_def q_level_def)

lemma inverted_cdf_fl_exact: "inverted_cdf_fl (\<lambda>x. x) n lv = inverted_cdf n lv"
  by (simp add: inverted_cdf_fl_def inverted_cdf_def)

lemma np_quantile_fl_exact: "np_quantile_fl (\<lambda>x. x) a lv = np_quantile a lv"
proof (cases "a = []")
  case True
  then show ?thesis
    by (simp add: np_quantile_fl_def np_quantile_def)
next
  case False
  then have "lv \<le> 1 \<Longrightarrow> nat (inverted_cdf (length a) lv) < length a"
    by (intro inverted_cdf_in_range) simp_all
  with False show ?thesis
    by (auto simp: np_quantile_fl_def np_quantile_def inverted_cdf_fl_exact Let_def)
qed

lemma calibrated_treshold_fl_exact:
  "calibrated_treshold_fl (\<lambda>x. x) r alpha = calibrated_treshold r alpha"
  by (simp add: calibrated_treshold_fl_def calibrated_treshold_def q_level_fl_exact
      np_quantile_fl_exact split: sum.splits)

lemma calibrate_fl_exact:
  "calibrate_fl (\<lambda>x. x) predictions targets alpha = calibrate predictions targets alpha"
  by (simp add: calibrate_fl_def calibrate_def nonconf_scores_manual_fl_def
      nonconf_scores_manual_def calibrated_treshold_fl_exact)

text \<open>
  The position NumPy takes is the ceiling of the rounded product, less one, and not
  below 0.
\<close>

lemma inverted_cdf_fl_ceiling:
  "inverted_cdf_fl fl n lv = max 0 (\<lceil>fl (real n * lv)\<rceil> - 1)"
  unfolding inverted_cdf_fl_def Let_def
  by (auto simp: ceiling_altdef max_def)

lemma inverted_cdf_fl_in_range:
  assumes "0 < n" and "mono fl" and "fl (real n) = real n" and "lv \<le> 1"
  shows "nat (inverted_cdf_fl fl n lv) < n"
proof -
  have "real n * lv \<le> real n"
    using assms(4) by (simp add: mult_left_le)
  with assms(2) have "fl (real n * lv) \<le> fl (real n)"
    by (simp add: monoD)
  then have "\<lceil>fl (real n * lv)\<rceil> \<le> int n"
    by (simp add: assms(3) ceiling_le_iff)
  then show ?thesis
    using assms(1) unfolding inverted_cdf_fl_ceiling by linarith
qed

text \<open>
  The entry of the sorted scores at position \<open>max 0 (\<lceil>n * lv\<rceil> - 1)\<close> is the smallest score
  whose empirical fraction reaches \<open>lv\<close>, for every level \<open>lv \<le> 1\<close>.
\<close>

lemma position_smallest_covering:
  assumes "r \<noteq> []" and "lv \<le> 1"
  defines "m \<equiv> sort r ! nat (max 0 (\<lceil>real (length r) * lv\<rceil> - 1))"
  shows "m \<in> set r"
    and "lv \<le> ecdf r m"
    and "\<And>v. v \<in> set r \<Longrightarrow> lv \<le> ecdf r v \<Longrightarrow> m \<le> v"
proof -
  define n where "n = length r"
  define k where "k = nat (max 0 (\<lceil>real n * lv\<rceil> - 1))"
  have npos: "0 < n"
    using assms(1) by (simp add: n_def)
  have "real n * lv \<le> real n"
    using assms(2) by (simp add: mult_left_le)
  then have "\<lceil>real n * lv\<rceil> \<le> int n"
    by (simp add: ceiling_le_iff)
  then have "k < n"
    using npos unfolding k_def by linarith
  then have klt: "k < length (sort r)"
    by (simp add: n_def)
  have m: "m = sort r ! k"
    by (simp add: m_def k_def n_def)
  have kceil: "int (Suc k) = max 1 \<lceil>real n * lv\<rceil>"
    unfolding k_def by linarith
  show "m \<in> set r"
    using nth_mem [OF klt] by (simp add: m)
  have "Suc k \<le> length (filter (\<lambda>x. x \<le> m) (sort r))"
    unfolding m by (rule sorted_count_le_ge) (use klt in simp_all)
  then have cnt: "real (Suc k) \<le> real (length (filter (\<lambda>x. x \<le> m) (sort r)))"
    by (simp only: of_nat_le_iff)
  have "real n * lv \<le> of_int \<lceil>real n * lv\<rceil>"
    by (rule le_of_int_ceiling)
  also have "\<dots> \<le> of_int (int (Suc k))"
    unfolding kceil by simp
  also have "\<dots> = real (Suc k)"
    by simp
  finally have "real n * lv \<le> real (length (filter (\<lambda>x. x \<le> m) (sort r)))"
    using cnt by linarith
  then have "lv \<le> ecdf (sort r) m"
    using npos by (simp add: ecdf_def n_def field_simps)
  then show "lv \<le> ecdf r m"
    by (simp add: ecdf_sort)
  show "m \<le> v" if v: "v \<in> set r" and cov: "lv \<le> ecdf r v" for v
  proof (rule ccontr)
    assume "\<not> m \<le> v"
    then have "v < sort r ! k"
      by (simp add: m)
    then have le_k: "length (filter (\<lambda>x. x \<le> v) (sort r)) \<le> k"
      by (intro sorted_count_less) (use klt in simp_all)
    have same: "length (filter (\<lambda>x. x \<le> v) (sort r)) = length (filter (\<lambda>x. x \<le> v) r)"
      by (simp add: length_filter_mset)
    define c where "c = length (filter (\<lambda>x. x \<le> v) r)"
    have ck: "c \<le> k"
      using le_k same by (simp add: c_def)
    have "v \<in> set (filter (\<lambda>x. x \<le> v) r)"
      using v by simp
    then have c1: "1 \<le> c"
      unfolding c_def by (metis length_pos_if_in_set Suc_leI One_nat_def)
    have "lv \<le> real c / real n"
      using cov by (simp add: ecdf_def c_def n_def)
    then have "real n * lv \<le> real c"
      using npos by (simp add: field_simps)
    then have "\<lceil>real n * lv\<rceil> \<le> int c"
      by (simp add: ceiling_le_iff)
    with c1 have "max 1 \<lceil>real n * lv\<rceil> \<le> int c"
      by simp
    with kceil have "Suc k \<le> c"
      by linarith
    with ck show False
      by simp
  qed
qed

lemma position_is_spec_quantile:
  assumes "r \<noteq> []" and "lv \<le> 1"
  shows "sort r ! nat (max 0 (\<lceil>real (length r) * lv\<rceil> - 1)) = inverted_ecdf_quantile_spec r lv"
proof -
  define m where "m = sort r ! nat (max 0 (\<lceil>real (length r) * lv\<rceil> - 1))"
  note facts = position_smallest_covering [OF assms, folded m_def]
  have "Min (set (filter (\<lambda>v. lv \<le> ecdf r v) r)) = m"
  proof (rule Min_eqI)
    show "finite (set (filter (\<lambda>v. lv \<le> ecdf r v) r))"
      by simp
    show "m \<le> y" if "y \<in> set (filter (\<lambda>v. lv \<le> ecdf r v) r)" for y
      using that facts(3) by simp
    show "m \<in> set (filter (\<lambda>v. lv \<le> ecdf r v) r)"
      using facts(1,2) by simp
  qed
  then show ?thesis
    by (simp add: inverted_ecdf_quantile_spec_def m_def)
qed

lemma scores_fl_nonempty:
  assumes "length predictions = length targets" and "predictions \<noteq> []"
  shows "map2 (\<lambda>p y. \<bar>fl (p - y)\<bar>) predictions targets \<noteq> ([] :: real list)"
  using assms by (cases predictions; cases targets) simp_all

lemma calibrate_fl_unfold:
  assumes "length predictions = length targets"
  shows "calibrate_fl fl predictions targets alpha =
         calibrated_treshold_fl fl (sort (map2 (\<lambda>p y. \<bar>fl (p - y)\<bar>) predictions targets)) alpha"
  using assms by (simp add: calibrate_fl_def nonconf_scores_manual_fl_def)

text \<open>
  What the line returns, by cases on the number of scores and on the rounded level.
\<close>

lemma calibrated_treshold_fl_cases:
  assumes "mono fl" and "fl (real (length r)) = real (length r)"
  shows "calibrated_treshold_fl fl r alpha =
         (if r = [] then Inl ZeroDivisionError
          else if fl (fl (fl (1 - alpha) * (real (length r) + 1)) / real (length r)) < 0
                  \<or> 1 < fl (fl (fl (1 - alpha) * (real (length r) + 1)) / real (length r))
          then Inl ValueError
          else Inr (sort r ! nat (max 0 (\<lceil>fl (real (length r)
                  * fl (fl (fl (1 - alpha) * (real (length r) + 1)) / real (length r)))\<rceil> - 1))))"
proof (cases "r = []")
  case True
  then show ?thesis
    by (simp add: calibrated_treshold_fl_def q_level_fl_def)
next
  case False
  define lv where "lv = fl (fl (fl (1 - alpha) * (real (length r) + 1)) / real (length r))"
  have npos: "0 < length r"
    using False by simp
  have lvl: "q_level_fl fl alpha (length r) = Inr lv"
    using False by (simp add: q_level_fl_def lv_def)
  have "nat (inverted_cdf_fl fl (length r) lv) < length r" if "lv \<le> 1"
    using npos assms that by (rule inverted_cdf_fl_in_range)
  then have "np_quantile_fl fl r lv =
      (if lv < 0 \<or> 1 < lv then Inl ValueError
       else Inr (sort r ! nat (max 0 (\<lceil>fl (real (length r) * lv)\<rceil> - 1))))"
    by (auto simp: np_quantile_fl_def Let_def inverted_cdf_fl_ceiling)
  then show ?thesis
    using False lvl by (simp add: calibrated_treshold_fl_def lv_def)
qed

text \<open>
  The line evaluated from the four rounded values: the difference \<open>s\<close>, the product \<open>p\<close>,
  the level \<open>lv\<close> and the product \<open>P\<close> of the level with \<open>n\<close>.
\<close>

lemma calibrated_treshold_fl_steps:
  assumes "r \<noteq> []"
    and "1 - alpha = d" and "fl d = s"
    and "s * (real (length r) + 1) = t" and "fl t = p"
    and "p / real (length r) = u" and "fl u = lv"
    and "real (length r) * lv = w" and "fl w = P"
    and "0 \<le> lv" and "lv \<le> 1"
    and "nat (max 0 (\<lceil>P\<rceil> - 1)) = k" and "k < length r"
  shows "calibrated_treshold_fl fl r alpha = Inr (sort r ! k)"
proof -
  have "q_level_fl fl alpha (length r) = Inr lv"
    using assms(1) by (simp add: q_level_fl_def assms(2-7))
  moreover have "np_quantile_fl fl r lv = Inr (sort r ! k)"
    using assms(10,11,13)
    by (simp add: np_quantile_fl_def inverted_cdf_fl_ceiling assms(8,9,12))
  ultimately show ?thesis
    by (simp add: calibrated_treshold_fl_def)
qed

text \<open>
  Three inputs on which binary64 rounds, with the values the four operations round to
  given as hypotheses on \<open>fl\<close>. On the scores 1, ..., 29 at alpha = 0.5 the quotient
  15 / 29 rounds up and so does its product with 29, to just above 15: the line returns
  16, where exact arithmetic returns 15. On the scores 1, 3 at the double just below
  1/3 the difference rounds up to the double nearest 2/3 and its product with 3 rounds
  to 2: the level is 1 and the line returns 3, where exact arithmetic has a level above
  1 and fails. On the scores 1, ..., 9 at the double nearest 0.3 the level is just above
  7/9 but its product with 9 rounds to 7: the line returns 7, as exact arithmetic does.
\<close>

lemma binary64_scores_29:
  assumes "fl (1 / 2) = 1 / 2" and "fl 15 = 15"
    and "fl (15 / 29) = 4658896166245341 / 9007199254740992"
    and "fl (135107988821114889 / 9007199254740992) = 8444249301319681 / 562949953421312"
  shows "calibrated_treshold_fl fl
           [1, 2, 3, 4, 5, 6, 7, 8, 9, 10, 11, 12, 13, 14, 15, 16, 17, 18, 19, 20,
            21, 22, 23, 24, 25, 26, 27, 28, 29] (1 / 2) = Inr 16"
    and "calibrated_treshold
           [1, 2, 3, 4, 5, 6, 7, 8, 9, 10, 11, 12, 13, 14, 15, 16, 17, 18, 19, 20,
            21, 22, 23, 24, 25, 26, 27, 28, 29] (1 / 2) = Inr 15"
proof -
  let ?r = "[1, 2, 3, 4, 5, 6, 7, 8, 9, 10, 11, 12, 13, 14, 15, 16, 17, 18, 19, 20,
            21, 22, 23, 24, 25, 26, 27, 28, 29 :: real]"
  have "calibrated_treshold_fl fl ?r (1 / 2) = Inr (sort ?r ! 15)"
  proof (rule calibrated_treshold_fl_steps [where d = "1 / 2" and s = "1 / 2" and t = 15
        and p = 15 and u = "15 / 29" and lv = "4658896166245341 / 9007199254740992"
        and w = "135107988821114889 / 9007199254740992"
        and P = "8444249301319681 / 562949953421312"])
    show "fl (1 / 2) = 1 / 2" and "fl 15 = 15"
      and "fl (15 / 29) = 4658896166245341 / 9007199254740992"
      and "fl (135107988821114889 / 9007199254740992) = 8444249301319681 / 562949953421312"
      by (rule assms)+
  qed simp_all
  then show "calibrated_treshold_fl fl ?r (1 / 2) = Inr 16"
    by simp
  show "calibrated_treshold ?r (1 / 2) = Inr 15"
    by (simp add: calibrated_treshold_def q_level_def np_quantile_def inverted_cdf_def)
qed

lemma binary64_scores_2:
  assumes "fl (12009599006321323 / 18014398509481984) = 3002399751580331 / 4503599627370496"
    and "fl (9007199254740993 / 4503599627370496) = 2" and "fl 1 = 1" and "fl 2 = 2"
  shows "calibrated_treshold_fl fl [1, 3] (6004799503160661 / 18014398509481984) = Inr 3"
    and "calibrated_treshold [1, 3] (6004799503160661 / 18014398509481984) = Inl ValueError"
proof -
  have "calibrated_treshold_fl fl [1, 3] (6004799503160661 / 18014398509481984)
      = Inr (sort [1, 3] ! 1)"
  proof (rule calibrated_treshold_fl_steps [where d = "12009599006321323 / 18014398509481984"
        and s = "3002399751580331 / 4503599627370496"
        and t = "9007199254740993 / 4503599627370496" and p = 2 and u = 1 and lv = 1
        and w = 2 and P = 2])
    show "fl (12009599006321323 / 18014398509481984) = 3002399751580331 / 4503599627370496"
      and "fl (9007199254740993 / 4503599627370496) = 2" and "fl 1 = 1" and "fl 2 = 2"
      by (rule assms)+
  qed simp_all
  then show "calibrated_treshold_fl fl [1, 3] (6004799503160661 / 18014398509481984) = Inr 3"
    by simp
  show "calibrated_treshold [1, 3] (6004799503160661 / 18014398509481984) = Inl ValueError"
    by (simp add: calibrated_treshold_def q_level_def np_quantile_def)
qed

lemma binary64_scores_9:
  assumes "fl (12610078956637389 / 18014398509481984) = 3152519739159347 / 4503599627370496"
    and "fl (15762598695796735 / 2251799813685248) = 7"
    and "fl (7 / 9) = 7005599420354105 / 9007199254740992"
    and "fl (63050394783186945 / 9007199254740992) = 7"
  shows "calibrated_treshold_fl fl [1, 2, 3, 4, 5, 6, 7, 8, 9]
           (5404319552844595 / 18014398509481984) = Inr 7"
proof -
  have "calibrated_treshold_fl fl [1, 2, 3, 4, 5, 6, 7, 8, 9]
      (5404319552844595 / 18014398509481984) = Inr (sort [1, 2, 3, 4, 5, 6, 7, 8, 9] ! 6)"
  proof (rule calibrated_treshold_fl_steps [where d = "12610078956637389 / 18014398509481984"
        and s = "3152519739159347 / 4503599627370496"
        and t = "15762598695796735 / 2251799813685248" and p = 7 and u = "7 / 9"
        and lv = "7005599420354105 / 9007199254740992"
        and w = "63050394783186945 / 9007199254740992" and P = 7])
    show "fl (12610078956637389 / 18014398509481984) = 3152519739159347 / 4503599627370496"
      and "fl (15762598695796735 / 2251799813685248) = 7"
      and "fl (7 / 9) = 7005599420354105 / 9007199254740992"
      and "fl (63050394783186945 / 9007199254740992) = 7"
      by (rule assms)+
  qed simp_all
  then show ?thesis
    by simp
qed

subsection \<open>The level and the quantile\<close>

lemmas calibrate_fl_eval = calibrate_fl_def nonconf_scores_manual_fl_def
  calibrated_treshold_fl_def q_level_fl_def np_quantile_fl_def inverted_cdf_fl_def

text \<open>
  Two roundings used to evaluate the statements below: to the nearest third and to the
  nearest sixteenth. Both are monotone and leave every integer unchanged, as binary64
  rounding is and does below \<open>2^53\<close>.
\<close>

lemma mono_round_thirds: "mono (\<lambda>x::real. real_of_int (round (x * 3)) / 3)"
  by (intro monoI divide_right_mono) (simp_all add: round_mono)

lemma mono_round_sixteenths: "mono (\<lambda>x::real. real_of_int (round (x * 16)) / 16)"
  by (intro monoI divide_right_mono) (simp_all add: round_mono)

text \<open>
  C1 (as amended): for equal-length non-empty sequences and alpha strictly between 0
  and 1, provided the level computed for (1 - alpha) * (n + 1) / n is at most 1,
  \<open>calibrate\<close> returns the inverted-empirical-CDF quantile of the scores
  |predictions[i] - targets[i]| at the level p / n, where p is the value computed for
  n times that level: the smallest score whose fraction of scores at or below it reaches
  p / n. The level p / n is (1 - alpha) * (n + 1) / n up to the rounding of four
  operations, and equal to it when none of them rounds. The result is one of the
  scores; nothing is interpolated. The rounding is any monotone \<open>fl\<close> that leaves 0 and
  n unchanged.
\<close>

theorem calibrate_fl_is_inverted_ecdf_quantile:
  assumes "length predictions = length targets" and "predictions \<noteq> []"
    and "0 < alpha" and "alpha < 1"
    and "mono fl" and "fl 0 = 0"
    and "fl (real (length predictions)) = real (length predictions)"
    and "fl (fl (fl (1 - alpha) * (real (length predictions) + 1)) / real (length predictions)) \<le> 1"
  shows "let n = length predictions;
             r = map2 (\<lambda>p y. \<bar>fl (p - y)\<bar>) predictions targets;
             lv = fl (fl (fl (1 - alpha) * (real n + 1)) / real n);
             lv' = fl (real n * lv) / real n
         in \<exists>m. calibrate_fl fl predictions targets alpha = Inr m
              \<and> m = inverted_ecdf_quantile_spec r lv'
              \<and> m \<in> set r
              \<and> lv' \<le> ecdf r m
              \<and> (\<forall>v\<in>set r. lv' \<le> ecdf r v \<longrightarrow> m \<le> v)"
proof -
  define n where "n = length predictions"
  define r where "r = map2 (\<lambda>p y. \<bar>fl (p - y)\<bar>) predictions targets"
  define lv where "lv = fl (fl (fl (1 - alpha) * (real n + 1)) / real n)"
  define lv' where "lv' = fl (real n * lv) / real n"
  have npos: "0 < n"
    using assms(2) by (simp add: n_def)
  have ne: "r \<noteq> []"
    unfolding r_def by (rule scores_fl_nonempty [OF assms(1,2)])
  have len: "length r = n"
    using assms(1) by (simp add: r_def n_def)
  have fln: "fl (real n) = real n"
    using assms(7) by (simp add: n_def)
  have lv1: "lv \<le> 1"
    using assms(8) by (simp add: lv_def n_def)
  have nonneg: "0 \<le> fl x" if "0 \<le> x" for x
    using monoD [OF assms(5) that] by (simp add: assms(6))
  have "0 \<le> fl (1 - alpha)"
    using assms(4) by (intro nonneg) simp
  then have "0 \<le> fl (1 - alpha) * (real n + 1)"
    by (intro mult_nonneg_nonneg) simp_all
  then have "0 \<le> fl (fl (1 - alpha) * (real n + 1))"
    by (rule nonneg)
  then have "0 \<le> fl (fl (1 - alpha) * (real n + 1)) / real n"
    by simp
  then have lv0: "0 \<le> lv"
    unfolding lv_def by (rule nonneg)
  have "real n * lv \<le> real n"
    using lv1 by (simp add: mult_left_le)
  with assms(5) have "fl (real n * lv) \<le> fl (real n)"
    by (simp add: monoD)
  then have lv'1: "lv' \<le> 1"
    using npos by (simp add: lv'_def fln field_simps)
  have prod: "real n * lv' = fl (real n * lv)"
    using npos by (simp add: lv'_def)
  define m where "m = sort r ! nat (max 0 (\<lceil>real (length r) * lv'\<rceil> - 1))"
  note facts = position_smallest_covering [OF ne lv'1, folded m_def]
  have "calibrated_treshold_fl fl (sort r) alpha = Inr m"
    using calibrated_treshold_fl_cases [of fl "sort r" alpha] assms(5) fln ne lv0 lv1
    by (simp add: len sort_eq_Nil lv_def [symmetric] m_def prod sort_key_id_if_sorted)
  then have run: "calibrate_fl fl predictions targets alpha = Inr m"
    using calibrate_fl_unfold [OF assms(1), of fl alpha] by (simp add: r_def)
  have "m = inverted_ecdf_quantile_spec r lv'"
    unfolding m_def by (rule position_is_spec_quantile [OF ne lv'1])
  with run facts have "\<exists>m. calibrate_fl fl predictions targets alpha = Inr m
              \<and> m = inverted_ecdf_quantile_spec r lv'
              \<and> m \<in> set r
              \<and> lv' \<le> ecdf r m
              \<and> (\<forall>v\<in>set r. lv' \<le> ecdf r v \<longrightarrow> m \<le> v)"
    by blast
  then show ?thesis
    by (simp add: n_def r_def lv_def lv'_def Let_def)
qed

text \<open>
  The hypotheses hold at predictions 5, 2, 9, targets 4, 6, 9 and alpha = 0.5 under
  rounding to the nearest sixteenth. The scores are 1, 4, 0; the level 2/3 rounds to
  11/16, the product 3 * 11/16 = 33/16 is above 2, and the margin is 4, the smallest
  score covering 11/16. Exact arithmetic (the same theorem at the identity) has the
  level 2/3 and the margin 1: rounding the level up across a multiple of 1/n moves the
  margin to the next score.
\<close>

theorem calibrate_fl_is_inverted_ecdf_quantile_witness:
  "length [5, 2, 9 :: real] = length [4, 6, 9 :: real] \<and> [5, 2, 9 :: real] \<noteq> []
   \<and> (0::real) < 1 / 2 \<and> (1 / 2 :: real) < 1
   \<and> mono (\<lambda>x::real. real_of_int (round (x * 16)) / 16)
   \<and> real_of_int (round (0 * 16 :: real)) / 16 = 0
   \<and> real_of_int (round (real (length [5, 2, 9 :: real]) * 16)) / 16 = real (length [5, 2, 9 :: real])
   \<and> calibrate_fl (\<lambda>x. real_of_int (round (x * 16)) / 16) [5, 2, 9] [4, 6, 9] (1 / 2)
        = Inr (inverted_ecdf_quantile_spec [1, 4, 0] (11 / 16))
   \<and> inverted_ecdf_quantile_spec [1, 4, 0] (11 / 16) = 4
   \<and> calibrate_fl (\<lambda>x. x) [5, 2, 9] [4, 6, 9] (1 / 2)
        = Inr (inverted_ecdf_quantile_spec [1, 4, 0] (2 / 3))
   \<and> inverted_ecdf_quantile_spec [1, 4, 0] (2 / 3) = 1"
proof -
  let ?fl = "\<lambda>x::real. real_of_int (round (x * 16)) / 16"
  have len: "length [5, 2, 9 :: real] = length [4, 6, 9 :: real]" and ne: "[5, 2, 9 :: real] \<noteq> []"
    and a0: "(0::real) < 1 / 2" and a1: "(1 / 2 :: real) < 1"
    by simp_all
  have f0: "?fl 0 = 0" and fn: "?fl (real (length [5, 2, 9 :: real])) = real (length [5, 2, 9 :: real])"
    by simp_all
  have lv: "?fl (?fl (?fl (1 - 1 / 2) * (real (length [5, 2, 9 :: real]) + 1))
              / real (length [5, 2, 9 :: real])) = 11 / 16"
    by (simp add: round_def)
  have lv1: "?fl (?fl (?fl (1 - 1 / 2) * (real (length [5, 2, 9 :: real]) + 1))
              / real (length [5, 2, 9 :: real])) \<le> 1"
    unfolding lv by simp
  have r: "map2 (\<lambda>p y. \<bar>?fl (p - y)\<bar>) [5, 2, 9] [4, 6, 9] = [1, 4, 0]"
    by (simp add: round_def)
  have lv': "?fl (real (length [5, 2, 9 :: real]) * (11 / 16)) / real (length [5, 2, 9 :: real]) = 11 / 16"
    by (simp add: round_def)
  have rounded: "calibrate_fl ?fl [5, 2, 9] [4, 6, 9] (1 / 2)
      = Inr (inverted_ecdf_quantile_spec [1, 4, 0] (11 / 16))"
    using calibrate_fl_is_inverted_ecdf_quantile [of "[5, 2, 9]" "[4, 6, 9]" "1 / 2" ?fl,
        OF len ne a0 a1 mono_round_sixteenths f0 fn lv1]
    unfolding Let_def lv r lv' by blast
  have id0: "(\<lambda>x::real. x) 0 = 0"
    and idn: "(\<lambda>x::real. x) (real (length [5, 2, 9 :: real])) = real (length [5, 2, 9 :: real])"
    and idlv: "(\<lambda>x::real. x) ((\<lambda>x::real. x) ((\<lambda>x::real. x) (1 - 1 / 2)
                 * (real (length [5, 2, 9 :: real]) + 1)) / real (length [5, 2, 9 :: real])) \<le> 1"
    by simp_all
  have exact: "calibrate_fl (\<lambda>x. x) [5, 2, 9] [4, 6, 9] (1 / 2)
      = Inr (inverted_ecdf_quantile_spec [1, 4, 0] (2 / 3))"
    using calibrate_fl_is_inverted_ecdf_quantile [of "[5, 2, 9]" "[4, 6, 9]" "1 / 2" "\<lambda>x. x",
        OF len ne a0 a1 _ id0 idn idlv]
    by (simp add: mono_def Let_def)
  have q1: "inverted_ecdf_quantile_spec [1, 4, 0] (11 / 16) = 4"
    by (simp add: inverted_ecdf_quantile_spec_def ecdf_def)
  have q2: "inverted_ecdf_quantile_spec [1, 4, 0] (2 / 3) = 1"
    by (simp add: inverted_ecdf_quantile_spec_def ecdf_def)
  from len ne a0 a1 mono_round_sixteenths f0 fn rounded exact q1 q2 show ?thesis
    by blast
qed

text \<open>
  The claim as first stated, for every alpha strictly between 0 and 1, fails: with two
  scores and alpha = 0.25 the level is 0.75 * 3 / 2 = 1.125 (no operation rounds, so the
  exact embedding is the double computation), the empirical fraction of the largest
  score is 1, below the level, and the quantile raises instead of returning.
\<close>

theorem calibrate_level_above_one_counterexample:
  "length [5, 5 :: real] = length [4, 6 :: real] \<and> [5, 5 :: real] \<noteq> []
   \<and> (0::real) < 1 / 4 \<and> (1 / 4 :: real) < 1
   \<and> q_level (1 / 4) (length [5, 5 :: real]) = Inr (9 / 8)
   \<and> ecdf [1, 1] 1 < 9 / 8
   \<and> calibrate [5, 5] [4, 6] (1 / 4) = Inl ValueError"
  by (simp add: calibrate_eval ecdf_def)

text \<open>
  C2 (as amended): the level is handed to the quantile as it is computed, without
  clipping. For a non-empty score array the value computed for
  (1 - alpha) * (n + 1) / n is the level \<open>np.quantile\<close> receives; when that value is at
  most 1 it equals its own minimum with 1, and when it is above 1 the quantile receives
  a level above 1 and raises \<open>ValueError\<close>. This holds whatever the rounding \<open>fl\<close> is.
\<close>

theorem computed_level_passed_unclipped:
  assumes "nonconf_scores \<noteq> []"
  shows "let n = length nonconf_scores;
             lv = fl (fl (fl (1 - alpha) * (real n + 1)) / real n)
         in q_level_fl fl alpha n = Inr lv
            \<and> calibrated_treshold_fl fl nonconf_scores alpha = np_quantile_fl fl nonconf_scores lv
            \<and> (lv \<le> 1 \<longrightarrow> min lv 1 = lv)
            \<and> (1 < lv \<longrightarrow>
                 min lv 1 \<noteq> lv
                 \<and> calibrated_treshold_fl fl nonconf_scores alpha = Inl ValueError)"
proof -
  define n where "n = length nonconf_scores"
  define lv where "lv = fl (fl (fl (1 - alpha) * (real n + 1)) / real n)"
  have npos: "0 < n"
    using assms by (simp add: n_def)
  have lvl: "q_level_fl fl alpha n = Inr lv"
    using npos by (simp add: q_level_fl_def lv_def)
  then have run: "calibrated_treshold_fl fl nonconf_scores alpha = np_quantile_fl fl nonconf_scores lv"
    by (simp add: calibrated_treshold_fl_def n_def)
  have "calibrated_treshold_fl fl nonconf_scores alpha = Inl ValueError" if "1 < lv"
    using that run by (simp add: np_quantile_fl_def)
  then show ?thesis
    using lvl run by (simp add: n_def lv_def Let_def min_def)
qed

text \<open>
  Both cases occur with the two scores 1, 3. In exact arithmetic alpha = 0.25 gives the
  level 1.125 and the error. Under rounding to the nearest third alpha = 0.3 gives
  1 - alpha = 2/3, the product 2 and the level 1, and the line returns 3, although
  (1 - alpha) * (n + 1) / n = 1.05 is above 1: whether the line fails is decided by the
  computed level, as with doubles at alpha just below 1/3.
\<close>

theorem computed_level_passed_unclipped_witness:
  "[1, 3 :: real] \<noteq> []
   \<and> q_level_fl (\<lambda>x. x) (1 / 4) (length [1, 3 :: real]) = Inr (9 / 8)
   \<and> (1 :: real) < 9 / 8
   \<and> calibrated_treshold_fl (\<lambda>x. x) [1, 3] (1 / 4) = Inl ValueError
   \<and> q_level_fl (\<lambda>x. real_of_int (round (x * 3)) / 3) (3 / 10) (length [1, 3 :: real]) = Inr 1
   \<and> (1 :: real) \<le> 1
   \<and> calibrated_treshold_fl (\<lambda>x. real_of_int (round (x * 3)) / 3) [1, 3] (3 / 10)
        = np_quantile_fl (\<lambda>x. real_of_int (round (x * 3)) / 3) [1, 3] 1
   \<and> np_quantile_fl (\<lambda>x. real_of_int (round (x * 3)) / 3) [1, 3] 1 = Inr 3
   \<and> (1 :: real) < (1 - 3 / 10) * (real (length [1, 3 :: real]) + 1) / real (length [1, 3 :: real])"
proof -
  let ?fl = "\<lambda>x::real. real_of_int (round (x * 3)) / 3"
  have ne: "[1, 3 :: real] \<noteq> []"
    by simp
  have lv_exact: "(\<lambda>x::real. x) ((\<lambda>x::real. x) ((\<lambda>x::real. x) (1 - 1 / 4)
      * (real (length [1, 3 :: real]) + 1)) / real (length [1, 3 :: real])) = 9 / 8"
    by simp
  have lv_thirds: "?fl (?fl (?fl (1 - 3 / 10) * (real (length [1, 3 :: real]) + 1))
      / real (length [1, 3 :: real])) = 1"
    by (simp add: round_def)
  have exact: "q_level_fl (\<lambda>x. x) (1 / 4) (length [1, 3 :: real]) = Inr (9 / 8)
      \<and> calibrated_treshold_fl (\<lambda>x. x) [1, 3] (1 / 4) = Inl ValueError"
    using computed_level_passed_unclipped [OF ne, of "\<lambda>x. x" "1 / 4"]
    unfolding Let_def lv_exact by auto
  have thirds: "q_level_fl ?fl (3 / 10) (length [1, 3 :: real]) = Inr 1
      \<and> calibrated_treshold_fl ?fl [1, 3] (3 / 10) = np_quantile_fl ?fl [1, 3] 1"
    using computed_level_passed_unclipped [OF ne, of ?fl "3 / 10"]
    unfolding Let_def lv_thirds by auto
  have q: "np_quantile_fl ?fl [1, 3] 1 = Inr 3"
    by (simp add: np_quantile_fl_def inverted_cdf_fl_def round_def)
  have above: "(1 :: real) < (1 - 3 / 10) * (real (length [1, 3 :: real]) + 1) / real (length [1, 3 :: real])"
    by simp
  from ne exact thirds q above show ?thesis
    by simp
qed

text \<open>
  A level clipped to 1 would have returned the largest score here; the notebook line
  raises (alpha = 0.25, two scores, no operation rounds).
\<close>

theorem q_level_clipped_counterexample:
  "(0::real) < 1 / 4 \<and> (1 / 4 :: real) < 1 \<and> length [1, 3 :: real] \<noteq> 0
   \<and> q_level (1 / 4) (length [1, 3 :: real]) = Inr (9 / 8)
   \<and> min (9 / 8 :: real) 1 = 1
   \<and> np_quantile [1, 3] (min (9 / 8) 1) = Inr 3
   \<and> calibrated_treshold [1, 3] (1 / 4) = Inl ValueError
   \<and> calibrate [2, 7] [1, 4] (1 / 4) = Inl ValueError"
  by (simp add: calibrate_eval)

section \<open>Failures\<close>


text \<open>
  C3 (as amended): on sequences of equal length \<open>calibrate\<close> fails exactly when n = 0,
  with \<open>ZeroDivisionError\<close> from the division by n, or when the level computed for
  (1 - alpha) * (n + 1) / n lies outside [0, 1], with \<open>ValueError\<close> from \<open>np.quantile\<close>.
  In each of these cases it returns an error and no number, and on all other inputs it
  returns a margin. The computed level is not negative whenever alpha is at most 1, and
  alpha = 1 is among the inputs that return: the level is 0 and the margin is the
  smallest score. The rounding is any monotone \<open>fl\<close> that leaves n unchanged (and 0,
  for the last two parts). Sequences of different lengths are left open: the source
  has no code that compares the lengths.
\<close>

theorem calibrate_fl_fails_iff:
  assumes "length predictions = length targets" and "mono fl"
    and "fl (real (length predictions)) = real (length predictions)"
  shows "let n = length predictions;
             r = map2 (\<lambda>p y. \<bar>fl (p - y)\<bar>) predictions targets;
             lv = fl (fl (fl (1 - alpha) * (real n + 1)) / real n);
             res = calibrate_fl fl predictions targets alpha
         in (res = Inl ZeroDivisionError \<longleftrightarrow> n = 0)
            \<and> (res = Inl ValueError \<longleftrightarrow> 0 < n \<and> (lv < 0 \<or> 1 < lv))
            \<and> ((\<exists>e. res = Inl e) \<longleftrightarrow> n = 0 \<or> lv < 0 \<or> 1 < lv)
            \<and> ((\<exists>m. res = Inr m) \<longleftrightarrow> 0 < n \<and> 0 \<le> lv \<and> lv \<le> 1)
            \<and> (fl 0 = 0 \<and> alpha \<le> 1 \<longrightarrow> 0 \<le> lv)
            \<and> (fl 0 = 0 \<and> alpha = 1 \<and> 0 < n \<longrightarrow> res = Inr (Min (set r)))"
proof -
  define n where "n = length predictions"
  define r where "r = map2 (\<lambda>p y. \<bar>fl (p - y)\<bar>) predictions targets"
  define lv where "lv = fl (fl (fl (1 - alpha) * (real n + 1)) / real n)"
  define res where "res = calibrate_fl fl predictions targets alpha"
  have lenr: "length r = n"
    using assms(1) by (simp add: r_def n_def)
  then have len: "length (sort r) = n"
    by simp
  have empty: "sort r = [] \<longleftrightarrow> n = 0"
    using len by (metis length_0_conv)
  have fln: "fl (real (length (sort r))) = real (length (sort r))"
    using assms(3) by (simp add: lenr n_def)
  have cases: "res =
      (if n = 0 then Inl ZeroDivisionError
       else if lv < 0 \<or> 1 < lv then Inl ValueError
       else Inr (sort r ! nat (max 0 (\<lceil>fl (real n * lv)\<rceil> - 1))))"
    unfolding res_def calibrate_fl_unfold [OF assms(1)] r_def [symmetric]
      calibrated_treshold_fl_cases [OF assms(2) fln] len empty lv_def
    by (simp add: sort_key_id_if_sorted)
  have nonneg: "0 \<le> fl x" if "fl 0 = 0" "0 \<le> x" for x
    using monoD [OF assms(2) that(2)] by (simp add: that(1))
  have lv0: "0 \<le> lv" if f0: "fl 0 = 0" and a: "alpha \<le> 1"
  proof -
    have "0 \<le> fl (1 - alpha)"
      using a by (intro nonneg [OF f0]) simp
    then have "0 \<le> fl (1 - alpha) * (real n + 1)"
      by (intro mult_nonneg_nonneg) simp_all
    then have "0 \<le> fl (fl (1 - alpha) * (real n + 1))"
      by (rule nonneg [OF f0])
    then have "0 \<le> fl (fl (1 - alpha) * (real n + 1)) / real n"
      by simp
    then show ?thesis
      unfolding lv_def by (rule nonneg [OF f0])
  qed
  have one: "res = Inr (Min (set r))" if f0: "fl 0 = 0" and a: "alpha = 1" and npos: "0 < n"
  proof -
    have lvz: "lv = 0"
      using f0 a by (simp add: lv_def)
    have ne: "r \<noteq> []"
      using npos empty by (simp add: sort_eq_Nil)
    define m where "m = sort r ! nat (max 0 (\<lceil>real (length r) * 0\<rceil> - 1))"
    have le1: "(0::real) \<le> 1"
      by simp
    note facts = position_smallest_covering [OF ne le1, folded m_def]
    have "0 \<le> ecdf r v" for v
      by (simp add: ecdf_def)
    then have "Min (set r) = m"
      using facts(1,3) by (intro Min_eqI) simp_all
    moreover have "res = Inr m"
      using cases npos by (simp add: lvz f0 m_def)
    ultimately show ?thesis
      by simp
  qed
  have "(res = Inl ZeroDivisionError \<longleftrightarrow> n = 0)
      \<and> (res = Inl ValueError \<longleftrightarrow> 0 < n \<and> (lv < 0 \<or> 1 < lv))
      \<and> ((\<exists>e. res = Inl e) \<longleftrightarrow> n = 0 \<or> lv < 0 \<or> 1 < lv)
      \<and> ((\<exists>m. res = Inr m) \<longleftrightarrow> 0 < n \<and> 0 \<le> lv \<and> lv \<le> 1)"
    unfolding cases by auto
  with lv0 one show ?thesis
    by (simp add: n_def r_def lv_def res_def Let_def)
qed

text \<open>
  One input of each kind. In exact arithmetic: alpha = 1 on a single score returns that
  score, alpha = 0.25 on two scores has the level 1.125 and raises \<open>ValueError\<close>, and
  empty sequences raise \<open>ZeroDivisionError\<close>. Under rounding to the nearest third,
  alpha = 0.3 on two scores has the computed level 1 and returns.
\<close>

theorem calibrate_fl_fails_iff_witness:
  "length [5 :: real] = length [4 :: real] \<and> mono (\<lambda>x::real. x)
   \<and> calibrate_fl (\<lambda>x. x) [5] [4] 1 = Inr (Min (set [1]))
   \<and> calibrate_fl (\<lambda>x. x) [3, 8] [1, 4] (1 / 4) = Inl ValueError
   \<and> calibrate_fl (\<lambda>x. x) [] [] (1 / 2) = Inl ZeroDivisionError
   \<and> mono (\<lambda>x::real. real_of_int (round (x * 3)) / 3)
   \<and> real_of_int (round (real (length [3, 8 :: real]) * 3)) / 3 = real (length [3, 8 :: real])
   \<and> calibrate_fl (\<lambda>x. real_of_int (round (x * 3)) / 3) [3, 8] [1, 4] (3 / 10) = Inr 4"
proof -
  let ?fl = "\<lambda>x::real. real_of_int (round (x * 3)) / 3"
  have mono_id: "mono (\<lambda>x::real. x)"
    by (simp add: mono_def)
  have one: "calibrate_fl (\<lambda>x. x) [5] [4] 1 = Inr (Min (set [1]))"
    using calibrate_fl_fails_iff [of "[5]" "[4]" "\<lambda>x. x" 1, OF _ mono_id]
    by (simp add: Let_def)
  have quarter: "calibrate_fl (\<lambda>x. x) [3, 8] [1, 4] (1 / 4) = Inl ValueError"
    using calibrate_fl_fails_iff [of "[3, 8]" "[1, 4]" "\<lambda>x. x" "1 / 4", OF _ mono_id]
    by (simp add: Let_def)
  have empty: "calibrate_fl (\<lambda>x. x) [] [] (1 / 2) = Inl ZeroDivisionError"
    using calibrate_fl_fails_iff [of "[]" "[]" "\<lambda>x. x" "1 / 2", OF _ mono_id]
    by (simp add: Let_def)
  have fn: "?fl (real (length [3, 8 :: real])) = real (length [3, 8 :: real])"
    by simp
  have lv: "?fl (?fl (?fl (1 - 3 / 10) * (real (length [3, 8 :: real]) + 1))
      / real (length [3, 8 :: real])) = 1"
    by (simp add: round_def)
  have "\<exists>m. calibrate_fl ?fl [3, 8] [1, 4] (3 / 10) = Inr m"
    using calibrate_fl_fails_iff [of "[3, 8]" "[1, 4]" ?fl "3 / 10", OF _ mono_round_thirds fn]
    unfolding Let_def lv by simp
  moreover have "calibrate_fl ?fl [3, 8] [1, 4] (3 / 10) = Inr 4"
    by (simp add: calibrate_fl_eval round_def)
  ultimately have thirds: "calibrate_fl ?fl [3, 8] [1, 4] (3 / 10) = Inr 4"
    by simp
  from mono_id one quarter empty mono_round_thirds fn thirds show ?thesis
    by simp
qed

text \<open>
  The failure set is not "n = 0, or alpha outside (0, 1), or different lengths":
  alpha = 1 returns the smallest score, and alpha = 0.25, inside (0, 1), fails on two
  scores. No operation rounds on either input.
\<close>

theorem calibrate_alpha_one_counterexample:
  "length [5 :: real] = length [4 :: real] \<and> length [5 :: real] \<noteq> 0
   \<and> \<not> ((0 :: real) < 1 \<and> (1 :: real) < 1)
   \<and> calibrate [5] [4] 1 = Inr 1
   \<and> length [3, 8 :: real] = length [1, 4 :: real] \<and> length [3, 8 :: real] \<noteq> 0
   \<and> (0 :: real) < 1 / 4 \<and> (1 / 4 :: real) < 1
   \<and> calibrate [3, 8] [1, 4] (1 / 4) = Inl ValueError"
  by (simp add: calibrate_eval)

section \<open>Properties of the margin\<close>

text \<open>
  C5: a margin returned by \<open>calibrate\<close> is never negative, on valid inputs in
  particular: it is one of the absolute deviations.
\<close>

theorem calibrate_margin_nonneg:
  assumes "calibrate predictions targets alpha = Inr margin"
  shows "0 \<le> margin"
proof -
  have "margin \<in> set (map2 (\<lambda>p y. \<bar>p - y\<bar>) predictions targets)"
    using calibrate_Inr_D(3) [OF assms] by (rule np_quantile_in_set)
  then show ?thesis
    by (rule scores_nonneg)
qed

text \<open>
  The scores of predictions 2, -3, 1 against targets 4, 1, 1 are 2, 4, 0; at
  alpha = 0.4 the margin is 4.
\<close>

theorem calibrate_margin_nonneg_witness:
  "calibrate [2, -3, 1] [4, 1, 1] (2 / 5) = Inr 4 \<and> (0 :: real) \<le> 4"
proof -
  have run: "calibrate [2, -3, 1] [4, 1, 1] (2 / 5) = Inr 4"
    by (simp add: calibrate_eval)
  from calibrate_margin_nonneg [OF run] run show ?thesis
    by simp
qed





lemma map2_nth_perm:
  "map2 f (map (\<lambda>i. xs ! i) perm) (map (\<lambda>i. ys ! i) perm) = map (\<lambda>i. f (xs ! i) (ys ! i)) perm"
  by (induction perm) simp_all

lemma map2_conv_nth:
  assumes "length xs = length ys"
  shows "map2 f xs ys = map (\<lambda>i. f (xs ! i) (ys ! i)) [0..<length xs]"
  using assms by (intro nth_equalityI) simp_all

lemma mset_scores_perm:
  assumes "length predictions = length targets"
    and "mset perm = mset [0..<length predictions]"
  shows "mset (map2 f (map (\<lambda>i. predictions ! i) perm) (map (\<lambda>i. targets ! i) perm))
         = mset (map2 f predictions targets)"
proof -
  have "mset (map (\<lambda>i. f (predictions ! i) (targets ! i)) perm)
        = image_mset (\<lambda>i. f (predictions ! i) (targets ! i)) (mset perm)"
    by simp
  also have "\<dots> = image_mset (\<lambda>i. f (predictions ! i) (targets ! i)) (mset [0..<length predictions])"
    by (simp only: assms(2))
  also have "\<dots> = mset (map (\<lambda>i. f (predictions ! i) (targets ! i)) [0..<length predictions])"
    by simp
  finally show ?thesis
    by (simp only: map2_nth_perm map2_conv_nth [OF assms(1)])
qed

text \<open>
  C10: reordering the (prediction, target) pairs by one permutation of the indices
  \<open>0, ..., n - 1\<close> (given as the list \<open>perm\<close> of the indices in their new order) leaves
  the result of \<open>calibrate\<close> unchanged; and sorting the scores before the notebook line,
  as the notebook does in place, leaves the result of that line unchanged.
\<close>

theorem calibrate_permutation_invariant:
  assumes "length predictions = length targets"
    and "mset perm = mset [0..<length predictions]"
  shows "calibrate (map (\<lambda>i. predictions ! i) perm) (map (\<lambda>i. targets ! i) perm) alpha
           = calibrate predictions targets alpha
         \<and> calibrated_treshold (sort nonconf_scores) alpha = calibrated_treshold nonconf_scores alpha"
proof -
  define r where "r = map2 (\<lambda>p y. \<bar>p - y\<bar>) predictions targets"
  define r' where "r' = map2 (\<lambda>p y. \<bar>p - y\<bar>) (map (\<lambda>i. predictions ! i) perm)
                          (map (\<lambda>i. targets ! i) perm)"
  have "mset r' = mset r"
    unfolding r_def r'_def by (rule mset_scores_perm [OF assms])
  then have "sort r' = sort r"
    by (rule sort_mset_eq)
  moreover have "calibrate predictions targets alpha = calibrated_treshold (sort r) alpha"
    using assms(1) by (simp add: calibrate_def nonconf_scores_manual_def r_def)
  moreover have "calibrate (map (\<lambda>i. predictions ! i) perm) (map (\<lambda>i. targets ! i) perm) alpha
      = calibrated_treshold (sort r') alpha"
    by (simp add: calibrate_def nonconf_scores_manual_def r'_def)
  ultimately show ?thesis
    by (simp add: calibrated_treshold_sort)
qed

text \<open>
  Three pairs rotated by one position, at alpha = 0.4.
\<close>

theorem calibrate_permutation_invariant_witness:
  "length [5, 2, 9 :: real] = length [4, 6, 9 :: real]
   \<and> mset [2, 0, 1] = mset [0..<length [5, 2, 9 :: real]]
   \<and> map (\<lambda>i. [5, 2, 9 :: real] ! i) [2, 0, 1] = [9, 5, 2]
   \<and> map (\<lambda>i. [4, 6, 9 :: real] ! i) [2, 0, 1] = [9, 4, 6]
   \<and> calibrate [9, 5, 2] [9, 4, 6] (2 / 5) = calibrate [5, 2, 9] [4, 6, 9] (2 / 5)
   \<and> calibrate [5, 2, 9] [4, 6, 9] (2 / 5) = Inr 4
   \<and> calibrated_treshold (sort [1, 4, 0]) (2 / 5) = calibrated_treshold [1, 4, 0] (2 / 5)"
proof -
  have len: "length [5, 2, 9 :: real] = length [4, 6, 9 :: real]"
    by simp
  have "[0..<length [5, 2, 9 :: real]] = [0, 1, 2]"
    by (simp add: upt_rec)
  then have perm: "mset [2, 0, 1] = mset [0..<length [5, 2, 9 :: real]]"
    by simp
  have p: "map (\<lambda>i. [5, 2, 9 :: real] ! i) [2, 0, 1] = [9, 5, 2]"
    and t: "map (\<lambda>i. [4, 6, 9 :: real] ! i) [2, 0, 1] = [9, 4, 6]"
    by simp_all
  have run: "calibrate [5, 2, 9] [4, 6, 9] (2 / 5) = Inr 4"
    by (simp add: calibrate_eval)
  from calibrate_permutation_invariant [OF len perm, of "2 / 5" "[1, 4, 0]"]
  have "calibrate [9, 5, 2] [9, 4, 6] (2 / 5) = calibrate [5, 2, 9] [4, 6, 9] (2 / 5)
     \<and> calibrated_treshold (sort [1, 4, 0]) (2 / 5) = calibrated_treshold [1, 4, 0] (2 / 5)"
    unfolding p t .
  with len perm p t run show ?thesis
    by blast
qed

section \<open>Worked examples\<close>

text \<open>
  C7: for the scores 1, 2, ..., 10 and alpha = 0.1 there are n = 10 scores, the level is
  0.9 * 11 / 10 = 0.99, and the margin is 10, the largest score, which is also the smallest
  score whose empirical fraction reaches 0.99. The same margin comes out of \<open>calibrate\<close>
  on predictions 1, ..., 10 against targets that are all 0.
\<close>

theorem calibrate_ten_scores_example:
  "length [1, 2, 3, 4, 5, 6, 7, 8, 9, 10 :: real] = 10
   \<and> q_level (1 / 10) 10 = Inr (99 / 100)
   \<and> calibrated_treshold [1, 2, 3, 4, 5, 6, 7, 8, 9, 10] (1 / 10) = Inr 10
   \<and> Max (set [1, 2, 3, 4, 5, 6, 7, 8, 9, 10 :: real]) = 10
   \<and> inverted_ecdf_quantile_spec [1, 2, 3, 4, 5, 6, 7, 8, 9, 10] (99 / 100) = 10
   \<and> calibrate [1, 2, 3, 4, 5, 6, 7, 8, 9, 10] [0, 0, 0, 0, 0, 0, 0, 0, 0, 0] (1 / 10) = Inr 10"
  by (simp add: calibrate_def nonconf_scores_manual_def calibrated_treshold_def q_level_def
      np_quantile_def inverted_cdf_def inverted_ecdf_quantile_spec_def ecdf_def)

text \<open>
  C8: predictions 5.0, 5.0 against targets 4.0, 6.0 give the scores 1.0, 1.0; with
  alpha = 0.5 there are n = 2 scores, the level is 0.5 * 3 / 2 = 0.75 and the margin is 1.0;
  the interval around a new point prediction 5.0 is then (4.0, 6.0).
\<close>

theorem calibrate_two_scores_example:
  "nonconf_scores_manual [5, 5] [4, 6] = Inr [1, 1]
   \<and> length [1, 1 :: real] = 2
   \<and> q_level (1 / 2) 2 = Inr (3 / 4)
   \<and> calibrate [5, 5] [4, 6] (1 / 2) = Inr 1
   \<and> build_interval 5 1 = (4, 6)"
  by (simp add: calibrate_def nonconf_scores_manual_def calibrated_treshold_def q_level_def
      np_quantile_def inverted_cdf_def build_interval_def)

section \<open>Intervals\<close>

text \<open>
  C4: \<open>build_interval p m\<close> is exactly \<open>(p - m, p + m)\<close>; on a batch both bounds have as
  many entries as there are point predictions and entry \<open>i\<close> is the interval of point
  prediction \<open>i\<close>; and when the margin is not negative, the lower bound is at most the
  upper bound, in the scalar case and in every component of a batch.
\<close>

theorem build_interval_elementwise_ordered:
  "build_interval p m = (p - m, p + m)
   \<and> length (fst (build_interval_batch ps m)) = length ps
   \<and> length (snd (build_interval_batch ps m)) = length ps
   \<and> (\<forall>i<length ps.
         (fst (build_interval_batch ps m) ! i, snd (build_interval_batch ps m) ! i)
           = build_interval (ps ! i) m)
   \<and> (0 \<le> m \<longrightarrow>
         fst (build_interval p m) \<le> snd (build_interval p m)
         \<and> (\<forall>i<length ps.
               fst (build_interval_batch ps m) ! i \<le> snd (build_interval_batch ps m) ! i))"
  by (simp add: build_interval_def build_interval_batch_def y_pred_lower_manual_def
      y_pred_upper_manual_def)

theorem build_interval_elementwise_ordered_witness:
  "(0::real) \<le> 1
   \<and> (1::nat) < length [5, 7 :: real]
   \<and> build_interval 5 1 = (4, 6)
   \<and> (fst (build_interval_batch [5, 7] 1) ! 1, snd (build_interval_batch [5, 7] 1) ! 1)
        = build_interval ([5, 7] ! 1) 1
   \<and> fst (build_interval 5 1) \<le> snd (build_interval 5 1)
   \<and> fst (build_interval_batch [5, 7] 1) ! 1 \<le> snd (build_interval_batch [5, 7] 1) ! 1"
  using build_interval_elementwise_ordered [of 5 1 "[5, 7]"]
  by simp

end
